theory Spec2Isabelle
  imports Complex_Main
begin

section \<open>Archery: the bow, the arrows, the target and the context switcher\<close>

text \<open>
  A shallow embedding of \<^verbatim>\<open>archeryproj/archery.py\<close>. Python objects become records,
  the state classes of the bow become a datatype, every mutation is explicit state passing
  and every exception the code can raise is a value of \<open>error\<close>.

  Two idealisations are used throughout. Python floats are exact rationals (\<open>rat\<close>): the
  force of the bow and the speed of an arrow are computed without rounding. Rendering
  (blits, fonts, surfaces) is left out, except for the calls of \<^verbatim>\<open>Bow.draw\<close>, which are
  logged, and the picture of an arrow.
\<close>

subsection \<open>Module constants\<close>

definition SCREEN_WIDTH :: int where "SCREEN_WIDTH = 850"
definition SCREEN_HEIGHT :: int where "SCREEN_HEIGHT = 650"
definition SCORE_TABLE :: "int list" where "SCORE_TABLE = [3, 2, 1]"
definition GRAVITY :: rat where "GRAVITY = 0"

datatype error = ZeroDivisionError | IndexError | KeyError | ValueError
  | UnboundLocalError | AttributeError | SystemExit

subsection \<open>pygame.Rect\<close>

text \<open>
  The part of \<^verbatim>\<open>pygame.Rect\<close> the game uses: integer position and size, \<^verbatim>\<open>move_ip\<close>,
  \<^verbatim>\<open>colliderect\<close> (two rectangles overlap; a rectangle of width or height zero collides
  with nothing) and \<^verbatim>\<open>collidelist\<close> (the index of the first rectangle of a sequence that
  collides, or -1).
\<close>

record rect =
  rx :: int
  ry :: int
  rw :: int
  rh :: int

definition Rect :: "int \<times> int \<Rightarrow> int \<times> int \<Rightarrow> rect" where
  "Rect pos sz = \<lparr>rx = fst pos, ry = snd pos, rw = fst sz, rh = snd sz\<rparr>"

definition move_ip :: "int \<times> int \<Rightarrow> rect \<Rightarrow> rect" where
  "move_ip d r = r\<lparr>rx := rx r + fst d, ry := ry r + snd d\<rparr>"

definition topleft :: "rect \<Rightarrow> int \<times> int" where
  "topleft r = (rx r, ry r)"

definition colliderect :: "rect \<Rightarrow> rect \<Rightarrow> bool" where
  "colliderect a b =
     (if rw a = 0 \<or> rh a = 0 \<or> rw b = 0 \<or> rh b = 0 then False
      else min (rx a) (rx a + rw a) < max (rx b) (rx b + rw b)
         \<and> min (ry a) (ry a + rh a) < max (ry b) (ry b + rh b)
         \<and> max (rx a) (rx a + rw a) > min (rx b) (rx b + rw b)
         \<and> max (ry a) (ry a + rh a) > min (ry b) (ry b + rh b))"

fun collidelist_from :: "int \<Rightarrow> rect \<Rightarrow> rect list \<Rightarrow> int" where
  "collidelist_from i r [] = -1"
| "collidelist_from i r (x # xs) =
     (if colliderect r x then i else collidelist_from (i + 1) r xs)"

definition collidelist :: "rect \<Rightarrow> rect list \<Rightarrow> int" where
  "collidelist r xs = collidelist_from 0 r xs"

text \<open>pygame converts a float argument of \<^verbatim>\<open>move_ip\<close> with a C cast: towards zero.\<close>

definition c_int :: "rat \<Rightarrow> int" where
  "c_int q = (if 0 \<le> q then \<lfloor>q\<rfloor> else \<lceil>q\<rceil>)"

definition move_ip_float :: "rat \<times> rat \<Rightarrow> rect \<Rightarrow> rect" where
  "move_ip_float d r = move_ip (c_int (fst d), c_int (snd d)) r"

subsection \<open>Input events\<close>

text \<open>The main loop hands only key-down and key-up events to the active context.\<close>

datatype event_type = KEYDOWN | KEYUP

datatype key = K_SPACE | K_ESCAPE | K_DOWN | K_UP | K_RETURN | K_OTHER nat

datatype event = Event (etype: event_type) (ekey: key)

subsection \<open>Configuration fixed at start-up\<close>

text \<open>
  \<^verbatim>\<open>Bow.init(fps)\<close> computes \<^verbatim>\<open>TIME_FORCE_FPS = int(0.7 * fps)\<close> and
  \<^verbatim>\<open>TIME_COOLDOWN_FPS = int(1 * fps)\<close> in floating point, and the sizes of the pictures
  come from files that are not part of the sources; all of them are parameters here.
  \<open>main_config\<close> holds the thresholds of the main program (\<^verbatim>\<open>fps = 30\<close>).
\<close>

record config =
  TIME_FORCE_FPS :: int
  TIME_COOLDOWN_FPS :: int
  bow_img_size :: "int \<times> int"
  arrow_img_size :: "int \<times> int"
  target_img_size :: "int \<times> int"

definition main_config :: "int \<times> int \<Rightarrow> int \<times> int \<Rightarrow> int \<times> int \<Rightarrow> config" where
  "main_config bsz asz tsz =
     \<lparr>TIME_FORCE_FPS = 21, TIME_COOLDOWN_FPS = 30,
      bow_img_size = bsz, arrow_img_size = asz, target_img_size = tsz\<rparr>"

subsection \<open>Target\<close>

definition AREAS :: "((int \<times> int) \<times> (int \<times> int)) list" where
  "AREAS = [((79, 127), (26, 153)), ((88, 59), (34, 289)), ((88, 0), (42, 399))]"

definition INNER_I :: nat where "INNER_I = 0"
definition MIDDLE_I :: nat where "MIDDLE_I = 1"
definition OUTER_I :: nat where "OUTER_I = 2"

record target =
  inner_hit :: rect
  middle_hit :: rect
  outer_hit :: rect

definition Target_init :: "config \<Rightarrow> target" where
  "Target_init cfg =
     (let x = SCREEN_WIDTH - fst (target_img_size cfg);
          y = SCREEN_HEIGHT - snd (target_img_size cfg);
          inner = AREAS ! INNER_I;
          middle = AREAS ! MIDDLE_I;
          outer = AREAS ! OUTER_I
      in \<lparr>inner_hit = move_ip (x, y) (Rect (fst inner) (snd inner)),
          middle_hit = move_ip (x, y) (Rect (fst middle) (snd middle)),
          outer_hit = move_ip (x, y) (Rect (fst outer) (snd outer))\<rparr>)"

definition hitbox :: "target \<Rightarrow> rect list" where
  "hitbox t = [inner_hit t, middle_hit t, outer_hit t]"

subsection \<open>Arrow\<close>

datatype arrow_img = SHOT | STOPPED

definition HITBOX_OFFSET :: "int \<times> int" where "HITBOX_OFFSET = (165, 90)"
definition HITBOX_SIZE :: "int \<times> int" where "HITBOX_SIZE = (26, 17)"

text \<open>
  \<open>a_target\<close> is \<^verbatim>\<open>Target.INSTANCE\<close> as it was when the arrow was created (\<open>None\<close> when
  no target existed), \<open>a_context\<close> the game context of the bow that shot it, and
  \<open>a_alive\<close> tells whether the sprite still belongs to the group \<^verbatim>\<open>Arrow.INSTANCES\<close>
  (\<^verbatim>\<open>kill()\<close> removes it).
\<close>

record arrow =
  a_img :: arrow_img
  a_rect :: rect
  a_speed :: "rat \<times> rat"
  a_hitbox :: rect
  a_target :: "target option"
  a_context :: nat
  a_alive :: bool

definition Arrow_init :: "config \<Rightarrow> target option \<Rightarrow> nat \<Rightarrow> int \<times> int \<Rightarrow> rat \<Rightarrow> arrow" where
  "Arrow_init cfg tg context pos force =
     (let r = move_ip pos (Rect (0, 0) (arrow_img_size cfg))
      in \<lparr>a_img = SHOT, a_rect = r, a_speed = (force, 0),
          a_hitbox = move_ip HITBOX_OFFSET (Rect (rx r, ry r) HITBOX_SIZE),
          a_target = tg, a_context = context, a_alive = True\<rparr>)"

subsection \<open>Bow and its four states\<close>

definition ROPE_STATES :: int where "ROPE_STATES = 10"
definition POS_INIT :: "int \<times> int" where "POS_INIT = (20, 0)"
definition SPEED :: "int \<times> int" where "SPEED = (0, 8)"
definition AMMO_MAX :: int where "AMMO_MAX = 5"
definition FORCE_MIN :: int where "FORCE_MIN = 10"
definition FORCE_MAX :: int where "FORCE_MAX = 50"

datatype bow_state = NormalBowState | BentBowState | ReloadBowState | EmptyBowState

text \<open>
  The state objects hold nothing but their master, so the class of \<^verbatim>\<open>_state\<close> is all of
  the state. \<^verbatim>\<open>_bent_time\<close> and \<^verbatim>\<open>_cooldown\<close> are attributes of the bow that Python
  creates when the bent and the reload state are first entered; they are read in those
  states only, so the value 0 they have here before that is never looked at.
  \<open>b_draws\<close> logs the arguments of the calls of \<^verbatim>\<open>Bow.draw\<close>, latest first.
\<close>

record bow =
  b_rect :: rect
  b_speed :: "int \<times> int"
  b_ammo :: int
  b_state :: bow_state
  b_context :: nat
  b_bent_time :: int
  b_cooldown :: int
  b_draws :: "int list"

definition draw :: "int \<Rightarrow> bow \<Rightarrow> bow" where
  "draw step b = b\<lparr>b_draws := step # b_draws b\<rparr>"

definition NormalBowState_init :: "bow \<Rightarrow> bow" where
  "NormalBowState_init b = (draw 0 b)\<lparr>b_state := NormalBowState\<rparr>"

definition BentBowState_init :: "bow \<Rightarrow> bow" where
  "BentBowState_init b = b\<lparr>b_bent_time := 0, b_state := BentBowState\<rparr>"

definition ReloadBowState_init :: "config \<Rightarrow> bow \<Rightarrow> bow" where
  "ReloadBowState_init cfg b =
     (draw (-1) b)\<lparr>b_cooldown := TIME_COOLDOWN_FPS cfg, b_state := ReloadBowState\<rparr>"

definition EmptyBowState_init :: "bow \<Rightarrow> bow" where
  "EmptyBowState_init b = (draw (-1) b)\<lparr>b_speed := (0, 0), b_state := EmptyBowState\<rparr>"

definition Bow_init :: "config \<Rightarrow> nat \<Rightarrow> bow" where
  "Bow_init cfg context =
     NormalBowState_init
       \<lparr>b_rect = move_ip POS_INIT (Rect (0, 0) (bow_img_size cfg)), b_speed = SPEED,
        b_ammo = AMMO_MAX, b_state = NormalBowState, b_context = context,
        b_bent_time = 0, b_cooldown = 0, b_draws = []\<rparr>"

text \<open>\<^verbatim>\<open>Bow.force\<close>: a true division by \<^verbatim>\<open>TIME_FORCE_FPS\<close>, which raises when it is 0.\<close>

definition force :: "config \<Rightarrow> bow \<Rightarrow> error + rat" where
  "force cfg b =
     (if TIME_FORCE_FPS cfg = 0 then Inl ZeroDivisionError
      else Inr ((of_int (FORCE_MAX - FORCE_MIN) / of_int (TIME_FORCE_FPS cfg))
                  * of_int (b_bent_time b) + of_int FORCE_MIN))"

text \<open>
  \<^verbatim>\<open>Bow.shoot\<close>: the new arrow joins \<^verbatim>\<open>Arrow.INSTANCES\<close> (the list), then the ammunition
  goes down by one. Nothing here looks at the ammunition first.
\<close>

definition shoot :: "config \<Rightarrow> target option \<Rightarrow> bow \<times> arrow list \<Rightarrow> error + bow \<times> arrow list" where
  "shoot cfg tg s =
     (case force cfg (fst s) of
        Inl e \<Rightarrow> Inl e
      | Inr f \<Rightarrow>
          Inr ((fst s)\<lparr>b_ammo := b_ammo (fst s) - 1\<rparr>,
               snd s @ [Arrow_init cfg tg (b_context (fst s)) (topleft (b_rect (fst s))) f]))"

fun NormalBowState_update :: "event list \<Rightarrow> bow \<Rightarrow> bow" where
  "NormalBowState_update [] b = b"
| "NormalBowState_update (e # es) b =
     NormalBowState_update es
       (if etype e = KEYDOWN \<and> ekey e = K_SPACE then BentBowState_init b else b)"

text \<open>
  The first half of \<^verbatim>\<open>BentBowState.update\<close>: below the threshold the time goes up by
  one, and the bow is redrawn when \<^verbatim>\<open>_bent_time / (TIME_FORCE_FPS // ROPE_STATES)\<close> is a
  whole number. The floor division can give 0, and then the true division raises.
\<close>

definition bent_charge :: "config \<Rightarrow> bow \<Rightarrow> error + bow" where
  "bent_charge cfg b =
     (if b_bent_time b < TIME_FORCE_FPS cfg then
        (let b1 = b\<lparr>b_bent_time := b_bent_time b + 1\<rparr>;
             k = TIME_FORCE_FPS cfg div ROPE_STATES
         in if k = 0 then Inl ZeroDivisionError
            else if b_bent_time b1 mod k = 0 then Inr (draw (b_bent_time b1 div k) b1)
            else Inr b1)
      else Inr b)"

text \<open>
  The second half: the loop over the inputs of the frame. It belongs to the state object
  that was current when the frame began, and goes on to the end of the list after that
  object has replaced the state of its master.
\<close>

fun bent_inputs :: "config \<Rightarrow> target option \<Rightarrow> event list \<Rightarrow> bow \<times> arrow list
    \<Rightarrow> error + bow \<times> arrow list" where
  "bent_inputs cfg tg [] s = Inr s"
| "bent_inputs cfg tg (e # es) s =
     (if etype e = KEYUP \<and> ekey e = K_SPACE then
        (case shoot cfg tg s of
           Inl err \<Rightarrow> Inl err
         | Inr s1 \<Rightarrow>
             bent_inputs cfg tg es
               (if b_ammo (fst s1) \<noteq> 0 then (ReloadBowState_init cfg (fst s1), snd s1)
                else (EmptyBowState_init (fst s1), snd s1)))
      else bent_inputs cfg tg es s)"

definition BentBowState_update :: "config \<Rightarrow> target option \<Rightarrow> event list \<Rightarrow> bow \<times> arrow list
    \<Rightarrow> error + bow \<times> arrow list" where
  "BentBowState_update cfg tg inputs s =
     (case bent_charge cfg (fst s) of
        Inl err \<Rightarrow> Inl err
      | Inr b1 \<Rightarrow> bent_inputs cfg tg inputs (b1, snd s))"

definition ReloadBowState_update :: "bow \<Rightarrow> bow" where
  "ReloadBowState_update b =
     (let b1 = b\<lparr>b_cooldown := b_cooldown b - 1\<rparr>
      in if b_cooldown b1 = 0 then NormalBowState_init b1 else b1)"

definition EmptyBowState_update :: "bow \<Rightarrow> bow" where
  "EmptyBowState_update b = b"

definition state_update :: "config \<Rightarrow> target option \<Rightarrow> event list \<Rightarrow> bow \<times> arrow list
    \<Rightarrow> error + bow \<times> arrow list" where
  "state_update cfg tg inputs s =
     (case b_state (fst s) of
        NormalBowState \<Rightarrow> Inr (NormalBowState_update inputs (fst s), snd s)
      | BentBowState \<Rightarrow> BentBowState_update cfg tg inputs s
      | ReloadBowState \<Rightarrow> Inr (ReloadBowState_update (fst s), snd s)
      | EmptyBowState \<Rightarrow> Inr (EmptyBowState_update (fst s), snd s))"

text \<open>\<^verbatim>\<open>Bow.update\<close>: move, bounce at the screen's edges, then the state's own update.\<close>

definition bow_move :: "bow \<Rightarrow> bow" where
  "bow_move b =
     (let b1 = b\<lparr>b_rect := move_ip (b_speed b) (b_rect b)\<rparr>
      in if ry (b_rect b1) < 0 \<or> ry (b_rect b1) > SCREEN_HEIGHT - rh (b_rect b1)
         then b1\<lparr>b_speed := (- fst (b_speed b1), - snd (b_speed b1))\<rparr>
         else b1)"

definition Bow_update :: "config \<Rightarrow> target option \<Rightarrow> event list \<Rightarrow> bow \<times> arrow list
    \<Rightarrow> error + bow \<times> arrow list" where
  "Bow_update cfg tg inputs s = state_update cfg tg inputs (bow_move (fst s), snd s)"

text \<open>
  The bow over a sequence of frames, one list of events per frame. The list of arrows
  only grows here: it holds every arrow as \<^verbatim>\<open>Bow.shoot\<close> created it.
\<close>

fun Bow_run :: "config \<Rightarrow> target option \<Rightarrow> event list list \<Rightarrow> bow \<times> arrow list
    \<Rightarrow> error + bow \<times> arrow list" where
  "Bow_run cfg tg [] s = Inr s"
| "Bow_run cfg tg (inputs # frames) s =
     (case Bow_update cfg tg inputs s of
        Inl err \<Rightarrow> Inl err
      | Inr s1 \<Rightarrow> Bow_run cfg tg frames s1)"

subsection \<open>Contexts and the objects they share\<close>

record game_context =
  g_score :: int
  g_drawn :: bool

text \<open>\<open>m_options\<close> are the pairs (name, instruction) in the order of the dictionary.\<close>

record custom_menu =
  m_title :: string
  m_options :: "(string \<times> string) list"
  m_cursor :: int
  m_drawn :: bool

datatype context_obj = GameContext game_context | CustomMenu custom_menu | DummyContext

text \<open>
  The objects every part of the game reaches: the context instances, by the address they
  were created at, and the class attributes \<^verbatim>\<open>Bow.INSTANCE\<close> (a group of at most one
  sprite), \<^verbatim>\<open>Arrow.INSTANCES\<close> (the live arrows, in the order they joined) and
  \<^verbatim>\<open>Target.INSTANCE\<close>.
\<close>

record world =
  objs :: "nat \<Rightarrow> context_obj option"
  next_id :: nat
  Bow_INSTANCE :: "bow option"
  Arrow_INSTANCES :: "arrow list"
  Target_INSTANCE :: "target option"

text \<open>Python's \<^verbatim>\<open>xs[i]\<close>: a negative index counts from the end.\<close>

definition getitem :: "'a list \<Rightarrow> int \<Rightarrow> error + 'a" where
  "getitem xs i =
     (if 0 \<le> i \<and> i < int (length xs) then Inr (xs ! nat i)
      else if i < 0 \<and> - int (length xs) \<le> i then Inr (xs ! nat (int (length xs) + i))
      else Inl IndexError)"

text \<open>\<^verbatim>\<open>GameContext.update_score\<close>, on the context at address \<open>c\<close>.\<close>

definition update_score :: "nat \<Rightarrow> int \<Rightarrow> (nat \<Rightarrow> context_obj option)
    \<Rightarrow> error + (nat \<Rightarrow> context_obj option)" where
  "update_score c zone h =
     (case h c of
        Some (GameContext g) \<Rightarrow>
          (case getitem SCORE_TABLE zone of
             Inl e \<Rightarrow> Inl e
           | Inr v \<Rightarrow> Inr (h(c \<mapsto> GameContext (g\<lparr>g_score := g_score g + v\<rparr>))))
      | _ \<Rightarrow> Inl AttributeError)"

text \<open>
  \<^verbatim>\<open>Arrow.update\<close>. The test of the screen's bounds is followed by the test of the target
  whatever its outcome was.
\<close>

definition arrow_move :: "arrow \<Rightarrow> arrow" where
  "arrow_move a =
     (let sp = (fst (a_speed a), snd (a_speed a) + GRAVITY)
      in a\<lparr>a_speed := sp, a_rect := move_ip_float sp (a_rect a),
            a_hitbox := move_ip_float sp (a_hitbox a)\<rparr>)"

definition out_of_screen :: "arrow \<Rightarrow> bool" where
  "out_of_screen a \<longleftrightarrow> rx (a_rect a) > SCREEN_WIDTH \<or> ry (a_rect a) > SCREEN_HEIGHT"

definition Arrow_update :: "arrow \<Rightarrow> (nat \<Rightarrow> context_obj option)
    \<Rightarrow> error + arrow \<times> (nat \<Rightarrow> context_obj option)" where
  "Arrow_update a h =
     (if a_speed a \<noteq> (0, 0) then
        (let a1 = arrow_move a;
             a2 = (if out_of_screen a1 then a1\<lparr>a_alive := False\<rparr> else a1)
         in case a_target a2 of
              None \<Rightarrow> Inl AttributeError
            | Some t \<Rightarrow>
                (let zone = collidelist (a_hitbox a2) (hitbox t)
                 in if zone \<noteq> -1 then
                      (case update_score (a_context a2) zone h of
                         Inl e \<Rightarrow> Inl e
                       | Inr h1 \<Rightarrow>
                           Inr (a2\<lparr>a_speed := (0, 0), a_img := STOPPED, a_alive := False\<rparr>, h1))
                    else Inr (a2, h)))
      else Inr (a, h))"

text \<open>\<^verbatim>\<open>Arrow.INSTANCES.update()\<close>: every sprite of the group once; the killed ones leave.\<close>

fun Arrows_update :: "arrow list \<Rightarrow> (nat \<Rightarrow> context_obj option)
    \<Rightarrow> error + arrow list \<times> (nat \<Rightarrow> context_obj option)" where
  "Arrows_update [] h = Inr ([], h)"
| "Arrows_update (a # as) h =
     (case Arrow_update a h of
        Inl e \<Rightarrow> Inl e
      | Inr r \<Rightarrow>
          (case Arrows_update as (snd r) of
             Inl e \<Rightarrow> Inl e
           | Inr rs \<Rightarrow> Inr ((if a_alive (fst r) then [fst r] else []) @ fst rs, snd rs)))"

text \<open>
  \<^verbatim>\<open>GameContext.__init__\<close>: a new context with score 0, a new bow that takes the place of
  the one in \<^verbatim>\<open>Bow.INSTANCE\<close>, a new target in \<^verbatim>\<open>Target.INSTANCE\<close>. The group
  \<^verbatim>\<open>Arrow.INSTANCES\<close> is not touched.
\<close>

definition GameContext_init :: "config \<Rightarrow> world \<Rightarrow> nat \<times> world" where
  "GameContext_init cfg w =
     (let self = next_id w
      in (self,
          w\<lparr>objs := (objs w)(self \<mapsto> GameContext \<lparr>g_score = 0, g_drawn = False\<rparr>),
            next_id := self + 1,
            Bow_INSTANCE := Some (Bow_init cfg self),
            Target_INSTANCE := Some (Target_init cfg)\<rparr>))"

fun escape_pressed :: "event list \<Rightarrow> bool" where
  "escape_pressed [] = False"
| "escape_pressed (e # es) =
     (if etype e = KEYDOWN \<and> ekey e = K_ESCAPE then True else escape_pressed es)"

definition set_drawn :: "bool \<Rightarrow> nat \<Rightarrow> (nat \<Rightarrow> context_obj option)
    \<Rightarrow> error + (nat \<Rightarrow> context_obj option)" where
  "set_drawn d c h =
     (case h c of
        Some (GameContext g) \<Rightarrow> Inr (h(c \<mapsto> GameContext (g\<lparr>g_drawn := d\<rparr>)))
      | _ \<Rightarrow> Inl AttributeError)"

text \<open>
  \<^verbatim>\<open>GameContext.update\<close> of the context at address \<open>self\<close>: the bow of
  \<^verbatim>\<open>Bow.INSTANCE\<close>, then every arrow of \<^verbatim>\<open>Arrow.INSTANCES\<close>, then the escape key.
\<close>

definition GameContext_update :: "config \<Rightarrow> nat \<Rightarrow> event list \<Rightarrow> world
    \<Rightarrow> error + string option \<times> world" where
  "GameContext_update cfg self inputs w =
     (case set_drawn True self (objs w) of
        Inl e \<Rightarrow> Inl e
      | Inr h0 \<Rightarrow>
     (case Bow_INSTANCE w of
        None \<Rightarrow> Inl AttributeError
      | Some b \<Rightarrow>
     (case Bow_update cfg (Target_INSTANCE w) inputs (b, Arrow_INSTANCES w) of
        Inl e \<Rightarrow> Inl e
      | Inr s \<Rightarrow>
     (case Arrows_update (snd s) h0 of
        Inl e \<Rightarrow> Inl e
      | Inr r \<Rightarrow>
          (let w1 = w\<lparr>objs := snd r, Bow_INSTANCE := Some (fst s), Arrow_INSTANCES := fst r\<rparr>
           in if escape_pressed inputs then
                (case set_drawn False self (objs w1) of
                   Inl e \<Rightarrow> Inl e
                 | Inr h2 \<Rightarrow> Inr (Some ''Pause Switch'', w1\<lparr>objs := h2\<rparr>))
              else Inr (None, w1))))))"

subsection \<open>Menus\<close>

definition CustomMenu_init :: "string \<Rightarrow> (string \<times> string) list \<Rightarrow> custom_menu" where
  "CustomMenu_init title option_dict =
     \<lparr>m_title = title, m_options = option_dict, m_cursor = 0, m_drawn = False\<rparr>"

definition MainMenu :: custom_menu where
  "MainMenu = CustomMenu_init ''Archery'' [(''Play'', ''Game New''), (''Quit'', ''Quit Switch'')]"

definition Pause :: custom_menu where
  "Pause = CustomMenu_init ''Pause''
     [(''Resume'', ''Game Switch''), (''Menu'', ''Menu Switch''), (''Quit'', ''Quit Switch'')]"

text \<open>The setter of \<^verbatim>\<open>cursor\<close>: \<^verbatim>\<open>value % len(self._options)\<close>.\<close>

definition set_cursor :: "int \<Rightarrow> custom_menu \<Rightarrow> error + custom_menu" where
  "set_cursor v m =
     (if m_options m = [] then Inl ZeroDivisionError
      else Inr (m\<lparr>m_cursor := v mod int (length (m_options m))\<rparr>))"

fun menu_inputs :: "event list \<Rightarrow> custom_menu \<Rightarrow> error + string option \<times> custom_menu" where
  "menu_inputs [] m = Inr (None, m)"
| "menu_inputs (e # es) m =
     (if etype e = KEYDOWN then
        (if ekey e = K_DOWN then
           (case set_cursor (m_cursor m + 1) m of Inl x \<Rightarrow> Inl x | Inr m1 \<Rightarrow> menu_inputs es m1)
         else if ekey e = K_UP then
           (case set_cursor (m_cursor m - 1) m of Inl x \<Rightarrow> Inl x | Inr m1 \<Rightarrow> menu_inputs es m1)
         else if ekey e = K_RETURN then
           (case getitem (m_options m) (m_cursor m) of
              Inl x \<Rightarrow> Inl x
            | Inr opt \<Rightarrow> Inr (Some (snd opt), m\<lparr>m_drawn := False\<rparr>))
         else menu_inputs es m)
      else menu_inputs es m)"

definition CustomMenu_update :: "event list \<Rightarrow> custom_menu
    \<Rightarrow> error + string option \<times> custom_menu" where
  "CustomMenu_update inputs m = menu_inputs inputs (m\<lparr>m_drawn := True\<rparr>)"

subsection \<open>The context switcher\<close>

datatype context_class = GameContext_class | MainMenu_class | Pause_class | QuitContext_class

record context_entry =
  cont_class :: context_class
  cached :: "nat option"

text \<open>\<^verbatim>\<open>str.split(' ')\<close>: the pieces between single spaces, at least one piece.\<close>

fun split_space :: "string \<Rightarrow> string list" where
  "split_space [] = [[]]"
| "split_space (c # cs) =
     (if c = CHR '' '' then [] # split_space cs
      else (case split_space cs of
              [] \<Rightarrow> [[c]]
            | p # ps \<Rightarrow> (c # p) # ps))"

text \<open>Calling the class (or factory) of an entry creates an object at a new address.\<close>

definition alloc :: "context_obj \<Rightarrow> world \<Rightarrow> nat \<times> world" where
  "alloc obj w = (next_id w, w\<lparr>objs := (objs w)(next_id w \<mapsto> obj), next_id := next_id w + 1\<rparr>)"

definition construct :: "config \<Rightarrow> context_class \<Rightarrow> world \<Rightarrow> nat \<times> world" where
  "construct cfg cls w =
     (case cls of
        GameContext_class \<Rightarrow> GameContext_init cfg w
      | MainMenu_class \<Rightarrow> alloc (CustomMenu MainMenu) w
      | Pause_class \<Rightarrow> alloc (CustomMenu Pause) w
      | QuitContext_class \<Rightarrow> alloc DummyContext w)"

text \<open>
  \<^verbatim>\<open>context_change\<close>. The result is the new active context (\<open>None\<close> is Python's
  \<^verbatim>\<open>None\<close>, the cached instance of a game that was never started), the dictionary and
  the shared objects.
\<close>

definition context_change :: "config \<Rightarrow> (string \<Rightarrow> context_entry option) \<Rightarrow> string \<Rightarrow> world
    \<Rightarrow> error + nat option \<times> (string \<Rightarrow> context_entry option) \<times> world" where
  "context_change cfg context_dict instruction w =
     (case split_space instruction of
        [change, opt] \<Rightarrow>
          (if opt = ''Switch'' then
             (case context_dict change of
                None \<Rightarrow> Inl KeyError
              | Some entry \<Rightarrow> Inr (cached entry, context_dict, w))
           else if opt = ''New'' then
             (case context_dict change of
                None \<Rightarrow> Inl KeyError
              | Some entry \<Rightarrow>
                  (let r = construct cfg (cont_class entry) w
                   in Inr (Some (fst r),
                           context_dict(change \<mapsto> \<lparr>cont_class = cont_class entry, cached = Some (fst r)\<rparr>),
                           snd r)))
           else Inl UnboundLocalError)
      | _ \<Rightarrow> Inl ValueError)"

text \<open>
  The main program: the three singletons are created, the game has no instance yet, and
  the menu is active. One turn of its loop updates the active context and follows the
  instruction it returns, if any. The dummy context of \<^verbatim>\<open>Quit\<close> leaves the program.
  The inputs of a frame are its key events; the event of the window being closed, which
  the loop answers with \<^verbatim>\<open>Quit Switch\<close>, is not among them.
\<close>

record program =
  active_context :: "nat option"
  context_dict :: "string \<Rightarrow> context_entry option"
  shared :: world

definition program_init :: program where
  "program_init =
     \<lparr>active_context = Some 0,
      context_dict =
        [''Game'' \<mapsto> \<lparr>cont_class = GameContext_class, cached = None\<rparr>,
         ''Pause'' \<mapsto> \<lparr>cont_class = Pause_class, cached = Some 1\<rparr>,
         ''Menu'' \<mapsto> \<lparr>cont_class = MainMenu_class, cached = Some 0\<rparr>,
         ''Quit'' \<mapsto> \<lparr>cont_class = QuitContext_class, cached = Some 2\<rparr>],
      shared =
        \<lparr>objs = [0 \<mapsto> CustomMenu MainMenu, 1 \<mapsto> CustomMenu Pause, 2 \<mapsto> DummyContext],
         next_id = 3, Bow_INSTANCE = None, Arrow_INSTANCES = [], Target_INSTANCE = None\<rparr>\<rparr>"

definition context_update :: "config \<Rightarrow> nat \<Rightarrow> event list \<Rightarrow> world
    \<Rightarrow> error + string option \<times> world" where
  "context_update cfg c inputs w =
     (case objs w c of
        None \<Rightarrow> Inl AttributeError
      | Some (GameContext g) \<Rightarrow> GameContext_update cfg c inputs w
      | Some (CustomMenu m) \<Rightarrow>
          (case CustomMenu_update inputs m of
             Inl e \<Rightarrow> Inl e
           | Inr r \<Rightarrow> Inr (fst r, w\<lparr>objs := (objs w)(c \<mapsto> CustomMenu (snd r))\<rparr>))
      | Some DummyContext \<Rightarrow> Inl SystemExit)"

definition main_step :: "config \<Rightarrow> event list \<Rightarrow> program \<Rightarrow> error + program" where
  "main_step cfg inputs p =
     (case active_context p of
        None \<Rightarrow> Inl AttributeError
      | Some c \<Rightarrow>
          (case context_update cfg c inputs (shared p) of
             Inl e \<Rightarrow> Inl e
           | Inr r \<Rightarrow>
               (case fst r of
                  None \<Rightarrow> Inr (p\<lparr>shared := snd r\<rparr>)
                | Some instruction \<Rightarrow>
                    (if instruction = [] then Inr (p\<lparr>shared := snd r\<rparr>)
                     else (case context_change cfg (context_dict p) instruction (snd r) of
                             Inl e \<Rightarrow> Inl e
                           | Inr q \<Rightarrow>
                               Inr \<lparr>active_context = fst q, context_dict = fst (snd q),
                                    shared = snd (snd q)\<rparr>)))))"

fun main_loop :: "config \<Rightarrow> event list list \<Rightarrow> program \<Rightarrow> error + program" where
  "main_loop cfg [] p = Inr p"
| "main_loop cfg (inputs # frames) p =
     (case main_step cfg inputs p of
        Inl e \<Rightarrow> Inl e
      | Inr p1 \<Rightarrow> main_loop cfg frames p1)"

subsection \<open>Vocabulary of the properties\<close>

text \<open>The number of charge-release events (key-up of the space bar) in the inputs of a frame.\<close>

fun releases :: "event list \<Rightarrow> nat" where
  "releases [] = 0"
| "releases (e # es) = (if etype e = KEYUP \<and> ekey e = K_SPACE then Suc (releases es) else releases es)"


text \<open>
  \<open>fired_at cfg t a\<close>: the arrow \<open>a\<close> has the speed \<^verbatim>\<open>Bow.shoot\<close> gives an arrow when the
  accumulation time is \<open>t\<close>. \<open>bent_time_ok\<close>: in the bent state the accumulation time lies
  between 0 and the threshold. \<open>fired_ok\<close>: every arrow of a list was fired at a time
  between 1 and the threshold.
\<close>

definition fired_at :: "config \<Rightarrow> int \<Rightarrow> arrow \<Rightarrow> bool" where
  "fired_at cfg t a \<longleftrightarrow>
     a_speed a = ((of_int (FORCE_MAX - FORCE_MIN) / of_int (TIME_FORCE_FPS cfg)) * of_int t
                    + of_int FORCE_MIN, 0)"

definition bent_time_ok :: "config \<Rightarrow> bow \<Rightarrow> bool" where
  "bent_time_ok cfg b \<longleftrightarrow>
     (b_state b = BentBowState \<longrightarrow> 0 \<le> b_bent_time b \<and> b_bent_time b \<le> TIME_FORCE_FPS cfg)"



text \<open>A configuration with the thresholds of the main program, and a few inputs.\<close>

definition sample_config :: config where
  "sample_config = main_config (200, 200) (200, 200) (130, 399)"

definition SPACE_DOWN :: event where "SPACE_DOWN = Event KEYDOWN K_SPACE"
definition SPACE_UP :: event where "SPACE_UP = Event KEYUP K_SPACE"

definition one_shot :: "event list list" where
  "one_shot = [[SPACE_DOWN], [SPACE_UP]] @ replicate 30 []"

text \<open>
  \<open>redrawn b b'\<close>: \<^verbatim>\<open>Bow.draw\<close> was called between \<open>b\<close> and \<open>b'\<close>. \<open>spec_redraw\<close>
  follows the words of the specification: the accumulation time is an exact multiple of
  the charge duration divided by the number of redraw steps, the division being exact.
\<close>

definition redrawn :: "bow \<Rightarrow> bow \<Rightarrow> bool" where
  "redrawn b b' \<longleftrightarrow> length (b_draws b') > length (b_draws b)"

definition exact_multiple :: "int \<Rightarrow> rat \<Rightarrow> bool" where
  "exact_multiple t d \<longleftrightarrow> (let q = of_int t / d in q = of_int \<lfloor>q\<rfloor>)"

definition spec_redraw :: "config \<Rightarrow> int \<Rightarrow> bool" where
  "spec_redraw cfg t \<longleftrightarrow> exact_multiple t (of_int (TIME_FORCE_FPS cfg) / of_int ROPE_STATES)"


text \<open>
  Runs of the bow that are used as examples: the bow one frame into the bent state, the
  space bar held for 21 frames and released, and four shots in a row.
\<close>

definition bent1 :: bow where
  "bent1 = fst (projr (Bow_run sample_config None [[SPACE_DOWN], []] (Bow_init sample_config 0, [])))"


definition four_shots :: "event list list" where
  "four_shots = one_shot @ one_shot @ one_shot @ one_shot"

text \<open>
  \<open>hitbox_attached\<close>: the hitbox of an arrow sits at the fixed offset from its picture, as
  the constructor puts it. \<open>zone_score\<close>: the score of the first zone hit, inner first.
  Then two arrows and the objects of one game that are used as examples.
\<close>

definition hitbox_attached :: "arrow \<Rightarrow> bool" where
  "hitbox_attached a \<longleftrightarrow>
     a_hitbox a = move_ip HITBOX_OFFSET (Rect (topleft (a_rect a)) HITBOX_SIZE)"

definition zone_score :: "rect \<Rightarrow> target \<Rightarrow> int" where
  "zone_score hb t =
     (if colliderect hb (inner_hit t) then 3 else if colliderect hb (middle_hit t) then 2 else 1)"

definition hit_arrow :: arrow where
  "hit_arrow = Arrow_init sample_config (Some (Target_init sample_config)) 3 (600, 300) 50"

definition far_arrow :: arrow where
  "far_arrow = Arrow_init sample_config (Some (Target_init sample_config)) 3 (840, 300) 50"

definition one_game :: "nat \<Rightarrow> context_obj option" where
  "one_game = [3 \<mapsto> GameContext \<lparr>g_score = 0, g_drawn = True\<rparr>]"

text \<open>
  \<open>rect_inside a b\<close>: every point of the rectangle \<open>a\<close> is a point of \<open>b\<close> (for
  rectangles of positive size), the containment the specification speaks of. Then the
  keys of the menus and a session of the main program: a game is started, an arrow is
  shot after twenty frames, the game is paused, the pause menu leads back to the main
  menu and a new game is started; \<open>second_game_later\<close> is sixty frames further on.
\<close>

definition rect_inside :: "rect \<Rightarrow> rect \<Rightarrow> bool" where
  "rect_inside a b \<longleftrightarrow>
     rx b \<le> rx a \<and> ry b \<le> ry a \<and> rx a + rw a \<le> rx b + rw b \<and> ry a + rh a \<le> ry b + rh b"

definition RETURN_DOWN :: event where "RETURN_DOWN = Event KEYDOWN K_RETURN"
definition ESCAPE_DOWN :: event where "ESCAPE_DOWN = Event KEYDOWN K_ESCAPE"
definition DOWN_DOWN :: event where "DOWN_DOWN = Event KEYDOWN K_DOWN"

definition play_pause_play :: "event list list" where
  "play_pause_play =
     [[RETURN_DOWN]] @ replicate 20 [] @
     [[SPACE_DOWN], [SPACE_UP], [ESCAPE_DOWN], [DOWN_DOWN], [RETURN_DOWN], [RETURN_DOWN]]"

definition first_game :: program where
  "first_game = projr (main_loop sample_config [[RETURN_DOWN]] program_init)"

definition second_game :: program where
  "second_game = projr (main_loop sample_config play_pause_play program_init)"

definition second_game_later :: program where
  "second_game_later =
     projr (main_loop sample_config (play_pause_play @ replicate 60 []) program_init)"

text \<open>
  \<open>ammo_state_ok\<close>: the bow is in the empty state exactly when it has no ammunition, and
  has some ammunition left otherwise.
\<close>

definition ammo_state_ok :: "bow \<Rightarrow> bool" where
  "ammo_state_ok b \<longleftrightarrow> (if b_state b = EmptyBowState then b_ammo b = 0 else 0 < b_ammo b)"

section \<open>Properties\<close>

subsection \<open>The bow, frame by frame\<close>

lemma bow_move_fields [simp]:
  "b_state (bow_move b) = b_state b" "b_ammo (bow_move b) = b_ammo b"
  "b_bent_time (bow_move b) = b_bent_time b" "b_cooldown (bow_move b) = b_cooldown b"
  "b_draws (bow_move b) = b_draws b" "b_context (bow_move b) = b_context b"
  by (simp_all add: bow_move_def Let_def)

lemma Bow_update_reload:
  "b_state b = ReloadBowState \<Longrightarrow>
     Bow_update cfg tg inputs (b, as) = Inr (ReloadBowState_update (bow_move b), as)"
  by (simp add: Bow_update_def state_update_def)

lemma ReloadBowState_update_fields:
  "b_cooldown (ReloadBowState_update b) = b_cooldown b - 1"
  "b_ammo (ReloadBowState_update b) = b_ammo b"
  "b_state b = ReloadBowState \<Longrightarrow> b_state (ReloadBowState_update b) = (if b_cooldown b - 1 = 0 then NormalBowState else ReloadBowState)"
  by (simp_all add: ReloadBowState_update_def Let_def NormalBowState_init_def draw_def)



lemma bent_charge_Inr:
  assumes "bent_charge cfg b = Inr b1"
  shows "b_bent_time b1 = (if b_bent_time b < TIME_FORCE_FPS cfg then b_bent_time b + 1 else b_bent_time b)"
    and "b_state b1 = b_state b" and "b_ammo b1 = b_ammo b" and "b_speed b1 = b_speed b"
    and "b_context b1 = b_context b" and "b_rect b1 = b_rect b"
  using assms by (auto simp: bent_charge_def Let_def draw_def split: if_splits)

lemma shoot_Inr:
  assumes "shoot cfg tg (b, as) = Inr (b1, as1)"
  shows "b_ammo b1 = b_ammo b - 1" and "b_bent_time b1 = b_bent_time b" and "b_state b1 = b_state b"
    and "\<exists>a. as1 = as @ [a] \<and> fired_at cfg (b_bent_time b) a" and "b_speed b1 = b_speed b"
  using assms by (auto simp: shoot_def force_def fired_at_def Arrow_init_def Let_def split: sum.splits if_splits)

lemma after_shot_fields [simp]:
  "b_bent_time (ReloadBowState_init cfg b) = b_bent_time b"
  "b_bent_time (EmptyBowState_init b) = b_bent_time b"
  "b_ammo (ReloadBowState_init cfg b) = b_ammo b"
  "b_ammo (EmptyBowState_init b) = b_ammo b"
  "b_state (ReloadBowState_init cfg b) = ReloadBowState"
  "b_state (EmptyBowState_init b) = EmptyBowState"
  "b_speed (EmptyBowState_init b) = (0, 0)"
  "b_speed (ReloadBowState_init cfg b) = b_speed b"
  "b_cooldown (ReloadBowState_init cfg b) = TIME_COOLDOWN_FPS cfg"
  by (simp_all add: ReloadBowState_init_def EmptyBowState_init_def draw_def)

lemma bent_inputs_Inr:
  assumes "bent_inputs cfg tg es (b, as) = Inr (b', as')"
  shows "b_bent_time b' = b_bent_time b
       \<and> b_ammo b' = b_ammo b - int (releases es)
       \<and> (releases es = 0 \<longrightarrow> b' = b)
       \<and> (releases es \<noteq> 0 \<longrightarrow> b_state b' = (if b_ammo b' \<noteq> 0 then ReloadBowState else EmptyBowState))
       \<and> (\<exists>new. as' = as @ new \<and> length new = releases es \<and> (\<forall>a \<in> set new. fired_at cfg (b_bent_time b) a))"
  using assms
proof (induction es arbitrary: b as)
  case Nil
  then show ?case by simp
next
  case (Cons e es)
  show ?case
  proof (cases "etype e = KEYUP \<and> ekey e = K_SPACE")
    case False
    then have "bent_inputs cfg tg es (b, as) = Inr (b', as')" using Cons.prems by auto
    from Cons.IH [OF this] False show ?thesis by auto
  next
    case True
    then obtain b1 as1 where sh: "shoot cfg tg (b, as) = Inr (b1, as1)"
      using Cons.prems by (auto split: sum.splits)
    define b2 where "b2 = (if b_ammo b1 \<noteq> 0 then ReloadBowState_init cfg b1 else EmptyBowState_init b1)"
    have rest: "bent_inputs cfg tg es (b2, as1) = Inr (b', as')"
      using Cons.prems True sh by (auto simp: b2_def split: if_splits)
    have b2: "b_bent_time b2 = b_bent_time b" "b_ammo b2 = b_ammo b - 1"
      "b_state b2 = (if b_ammo b2 \<noteq> 0 then ReloadBowState else EmptyBowState)"
      using shoot_Inr [OF sh] by (auto simp: b2_def)
    from shoot_Inr(4) [OF sh] obtain a where a: "as1 = as @ [a]" "fired_at cfg (b_bent_time b) a"
      by auto
    from Cons.IH [OF rest] obtain new where
      ih: "b_bent_time b' = b_bent_time b2" "b_ammo b' = b_ammo b2 - int (releases es)"
        "releases es = 0 \<longrightarrow> b' = b2"
        "releases es \<noteq> 0 \<longrightarrow> b_state b' = (if b_ammo b' \<noteq> 0 then ReloadBowState else EmptyBowState)"
        "as' = as1 @ new" "length new = releases es" "\<forall>a \<in> set new. fired_at cfg (b_bent_time b2) a"
      by auto
    have "as' = as @ (a # new)" using ih a by simp
    moreover have "length (a # new) = releases (e # es)" using ih True by simp
    moreover have "\<forall>x \<in> set (a # new). fired_at cfg (b_bent_time b) x" using ih a b2 by simp
    ultimately have ex: "\<exists>new. as' = as @ new \<and> length new = releases (e # es) \<and> (\<forall>a \<in> set new. fired_at cfg (b_bent_time b) a)"
      by blast
    have st: "b_state b' = (if b_ammo b' \<noteq> 0 then ReloadBowState else EmptyBowState)"
      using ih(3,4) b2 by (cases "releases es = 0") auto
    show ?thesis using ih b2 True ex st by simp
  qed
qed

lemma NormalBowState_update_keeps:
  "b_ammo (NormalBowState_update es b) = b_ammo b"
  "b_speed (NormalBowState_update es b) = b_speed b"
  by (induction es arbitrary: b) (auto simp: BentBowState_init_def)

lemma NormalBowState_update_state:
  "b_state (NormalBowState_update es b) = b_state b \<or> b_state (NormalBowState_update es b) = BentBowState"
proof (induction es arbitrary: b)
  case Nil
  then show ?case by simp
next
  case (Cons e es)
  show ?case using Cons.IH [of b] Cons.IH [of "BentBowState_init b"]
    by (auto simp: BentBowState_init_def)
qed




lemma Bow_init_inv: "bent_time_ok cfg (Bow_init cfg c)" "b_state (Bow_init cfg c) = NormalBowState"
  "b_ammo (Bow_init cfg c) = AMMO_MAX"
  by (simp_all add: Bow_init_def NormalBowState_init_def draw_def bent_time_ok_def)

lemma Bow_inputs_total:
  assumes "ROPE_STATES \<le> TIME_FORCE_FPS cfg"
  shows "\<exists>s'. bent_inputs cfg tg inputs s = Inr s'"
proof -
  have "TIME_FORCE_FPS cfg \<noteq> 0" using assms by (auto simp: ROPE_STATES_def)
  then show ?thesis
    by (induction inputs arbitrary: s) (auto simp: shoot_def force_def split: sum.splits)
qed

lemma Bow_update_total:
  assumes "ROPE_STATES \<le> TIME_FORCE_FPS cfg"
  shows "\<exists>s'. Bow_update cfg tg inputs s = Inr s'"
proof -
  have k: "TIME_FORCE_FPS cfg div ROPE_STATES \<noteq> 0" "TIME_FORCE_FPS cfg \<noteq> 0"
    using assms by (auto simp: ROPE_STATES_def)
  have ch: "\<And>b. \<exists>b1. bent_charge cfg b = Inr b1"
    using k by (auto simp: bent_charge_def Let_def)
  have inp: "\<And>s. \<exists>s'. bent_inputs cfg tg inputs s = Inr s'"
    subgoal for s using k(2)
      by (induction inputs arbitrary: s) (auto simp: shoot_def force_def split: sum.splits)
    done
  show ?thesis
  proof (cases "b_state (bow_move (fst s))")
    case BentBowState
    obtain b1 where "bent_charge cfg (bow_move (fst s)) = Inr b1" using ch by blast
    then show ?thesis using BentBowState inp [of "(b1, snd s)"]
      by (auto simp: Bow_update_def state_update_def BentBowState_update_def simp del: bow_move_fields)
  qed (auto simp: Bow_update_def state_update_def simp del: bow_move_fields)
qed

lemma Bow_run_total:
  assumes "ROPE_STATES \<le> TIME_FORCE_FPS cfg"
  shows "\<exists>s'. Bow_run cfg tg frames s = Inr s'"
proof (induction frames arbitrary: s)
  case Nil
  then show ?case by simp
next
  case (Cons f fs)
  obtain s1 where "Bow_update cfg tg f s = Inr s1" using Bow_update_total [OF assms] by blast
  then show ?case using Cons.IH [of s1] by simp
qed

lemmas sample_simps = sample_config_def main_config_def SPACE_DOWN_def SPACE_UP_def one_shot_def

lemma bent_charge_redraw:
  assumes "ROPE_STATES \<le> TIME_FORCE_FPS cfg"
  shows "\<exists>b'. bent_charge cfg b = Inr b'
      \<and> (redrawn b b' \<longleftrightarrow> b_bent_time b < TIME_FORCE_FPS cfg
            \<and> (b_bent_time b + 1) mod (TIME_FORCE_FPS cfg div ROPE_STATES) = 0)
      \<and> (redrawn b b' \<longrightarrow>
            b_draws b' = ((b_bent_time b + 1) div (TIME_FORCE_FPS cfg div ROPE_STATES)) # b_draws b)
      \<and> (\<not> redrawn b b' \<longrightarrow> b_draws b' = b_draws b)"
proof -
  have "TIME_FORCE_FPS cfg div ROPE_STATES \<noteq> 0" using assms by (auto simp: ROPE_STATES_def)
  then show ?thesis by (auto simp: bent_charge_def Let_def redrawn_def draw_def)
qed





subsection \<open>Arrows\<close>

lemma hitbox_attached_init: "hitbox_attached (Arrow_init cfg tg c pos f)"
  by (simp add: hitbox_attached_def Arrow_init_def Let_def topleft_def)

lemma hitbox_attached_move: "hitbox_attached a \<Longrightarrow> hitbox_attached (arrow_move a)"
  by (simp add: hitbox_attached_def arrow_move_def Let_def move_ip_float_def move_ip_def
      Rect_def topleft_def HITBOX_OFFSET_def HITBOX_SIZE_def)

lemma collidelist_hitbox:
  "collidelist hb (hitbox t) =
     (if colliderect hb (inner_hit t) then 0
      else if colliderect hb (middle_hit t) then 1
      else if colliderect hb (outer_hit t) then 2 else -1)"
  by (simp add: collidelist_def hitbox_def)

lemma Arrow_update_stopped: "a_speed a = (0, 0) \<Longrightarrow> Arrow_update a h = Inr (a, h)"
  by (simp add: Arrow_update_def)

lemma arrow_move_keeps [simp]:
  "a_target (arrow_move a) = a_target a" "a_context (arrow_move a) = a_context a"
  "a_img (arrow_move a) = a_img a" "a_alive (arrow_move a) = a_alive a"
  by (simp_all add: arrow_move_def Let_def)

lemma Arrow_update_hit:
  assumes live: "a_speed a \<noteq> (0, 0)"
    and tg: "a_target a = Some t"
    and ctx: "h (a_context a) = Some (GameContext g)"
    and hit: "colliderect (a_hitbox (arrow_move a)) (inner_hit t)
              \<or> colliderect (a_hitbox (arrow_move a)) (middle_hit t)
              \<or> colliderect (a_hitbox (arrow_move a)) (outer_hit t)"
  shows "Arrow_update a h =
     Inr ((if out_of_screen (arrow_move a) then (arrow_move a)\<lparr>a_alive := False\<rparr> else arrow_move a)
            \<lparr>a_speed := (0, 0), a_img := STOPPED, a_alive := False\<rparr>,
          h(a_context a \<mapsto>
              GameContext (g\<lparr>g_score := g_score g + zone_score (a_hitbox (arrow_move a)) t\<rparr>)))"
  using assms
  by (auto simp: Arrow_update_def Let_def collidelist_hitbox update_score_def getitem_def
      SCORE_TABLE_def zone_score_def)

lemma target_zones_right_of:
  assumes "0 \<le> fst (target_img_size cfg)" and "rw hb = 26" "rh hb = 17" and "1016 \<le> rx hb"
  shows "\<not> colliderect hb (inner_hit (Target_init cfg))"
    "\<not> colliderect hb (middle_hit (Target_init cfg))"
    "\<not> colliderect hb (outer_hit (Target_init cfg))"
  using assms
  by (simp_all add: colliderect_def Target_init_def AREAS_def INNER_I_def MIDDLE_I_def
      OUTER_I_def Rect_def move_ip_def SCREEN_WIDTH_def SCREEN_HEIGHT_def Let_def)

lemma target_zones_above:
  assumes "308 \<le> snd (target_img_size cfg)" and "rw hb = 26" "rh hb = 17" and "741 \<le> ry hb"
  shows "\<not> colliderect hb (inner_hit (Target_init cfg))"
    "\<not> colliderect hb (middle_hit (Target_init cfg))"
    "\<not> colliderect hb (outer_hit (Target_init cfg))"
  using assms
  by (simp_all add: colliderect_def Target_init_def AREAS_def INNER_I_def MIDDLE_I_def
      OUTER_I_def Rect_def move_ip_def SCREEN_WIDTH_def SCREEN_HEIGHT_def Let_def)

lemma hitbox_attached_fields:
  assumes "hitbox_attached a"
  shows "rx (a_hitbox a) = rx (a_rect a) + 165" "ry (a_hitbox a) = ry (a_rect a) + 90"
    "rw (a_hitbox a) = 26" "rh (a_hitbox a) = 17"
  using assms
  by (simp_all add: hitbox_attached_def move_ip_def Rect_def topleft_def HITBOX_OFFSET_def HITBOX_SIZE_def)

subsection \<open>Target and contexts\<close>

lemma GameContext_update_target:
  "GameContext_update cfg c inputs w = Inr r \<Longrightarrow> Target_INSTANCE (snd r) = Target_INSTANCE w"
  by (auto simp: GameContext_update_def Let_def split: sum.splits option.splits if_splits)

lemma Arrow_update_target:
  "Arrow_update a h = Inr r \<Longrightarrow> a_target (fst r) = a_target a"
  by (auto simp: Arrow_update_def Let_def split: sum.splits option.splits if_splits)

lemma construct_target:
  "Target_INSTANCE w = Some (Target_init cfg) \<Longrightarrow>
     Target_INSTANCE (snd (construct cfg cls w)) = Some (Target_init cfg)"
  by (cases cls) (simp_all add: construct_def GameContext_init_def alloc_def Let_def)

lemma context_change_target:
  "context_change cfg d ins w = Inr q \<Longrightarrow> Target_INSTANCE w = Some (Target_init cfg) \<Longrightarrow>
     Target_INSTANCE (snd (snd q)) = Some (Target_init cfg)"
  by (auto simp: context_change_def Let_def construct_target split: list.splits if_splits option.splits)

lemma context_update_target:
  "context_update cfg c inputs w = Inr r \<Longrightarrow> Target_INSTANCE (snd r) = Target_INSTANCE w"
  by (auto simp: context_update_def dest: GameContext_update_target
      split: option.splits context_obj.splits sum.splits)

lemma main_step_target:
  assumes "main_step cfg inputs p = Inr p'" and "Target_INSTANCE (shared p) = Some (Target_init cfg)"
  shows "Target_INSTANCE (shared p') = Some (Target_init cfg)"
proof -
  obtain c r where c: "active_context p = Some c" and r: "context_update cfg c inputs (shared p) = Inr r"
    using assms(1) by (auto simp: main_step_def split: option.splits sum.splits)
  have t: "Target_INSTANCE (snd r) = Some (Target_init cfg)"
    using context_update_target [OF r] assms(2) by simp
  show ?thesis
  proof (cases "fst r = None \<or> fst r = Some []")
    case True
    then have "p' = p\<lparr>shared := snd r\<rparr>" using assms(1) c r by (auto simp: main_step_def)
    then show ?thesis using t by simp
  next
    case False
    then obtain ins where ins: "fst r = Some ins" "ins \<noteq> []" by auto
    then obtain q where q: "context_change cfg (context_dict p) ins (snd r) = Inr q"
      and p': "p' = \<lparr>active_context = fst q, context_dict = fst (snd q), shared = snd (snd q)\<rparr>"
      using assms(1) c r by (auto simp: main_step_def split: sum.splits)
    show ?thesis using context_change_target [OF q t] p' by simp
  qed
qed

lemma Target_init_layout:
  "rect_inside (middle_hit (Target_init cfg)) (outer_hit (Target_init cfg))"
  "\<not> rect_inside (inner_hit (Target_init cfg)) (middle_hit (Target_init cfg))"
  "rx (inner_hit (Target_init cfg)) + 9 = rx (middle_hit (Target_init cfg))"
  "rx (middle_hit (Target_init cfg)) = rx (outer_hit (Target_init cfg))"
  "ry (middle_hit (Target_init cfg)) \<le> ry (inner_hit (Target_init cfg))"
  "ry (inner_hit (Target_init cfg)) + rh (inner_hit (Target_init cfg))
     \<le> ry (middle_hit (Target_init cfg)) + rh (middle_hit (Target_init cfg))"
  "rx (inner_hit (Target_init cfg)) + rw (inner_hit (Target_init cfg))
     \<le> rx (middle_hit (Target_init cfg)) + rw (middle_hit (Target_init cfg))"
  "colliderect (inner_hit (Target_init cfg)) (middle_hit (Target_init cfg))"
  by (simp_all add: rect_inside_def colliderect_def Target_init_def AREAS_def INNER_I_def
      MIDDLE_I_def OUTER_I_def Rect_def move_ip_def Let_def)

lemma context_change_Menu_Switch:
  "d ''Menu'' = Some e \<Longrightarrow>
     context_change cfg d ''Menu Switch'' w = Inr (cached e, d, w)"
  by (simp add: context_change_def)

lemma context_change_Game_New:
  assumes "d ''Game'' = Some e" and "cont_class e = GameContext_class"
  shows "\<exists>w'. context_change cfg d ''Game New'' w =
           Inr (Some (next_id w),
                d(''Game'' \<mapsto> \<lparr>cont_class = GameContext_class, cached = Some (next_id w)\<rparr>),
                w')
         \<and> objs w' (next_id w) = Some (GameContext \<lparr>g_score = 0, g_drawn = False\<rparr>)
         \<and> Arrow_INSTANCES w' = Arrow_INSTANCES w
         \<and> Bow_INSTANCE w' = Some (Bow_init cfg (next_id w))"
  using assms by (simp add: context_change_def construct_def GameContext_init_def Let_def)

subsection \<open>Ammunition, and frames with at most one release\<close>

text \<open>
  Only a frame that begins in the bent state changes the ammunition, by one for each
  release among its inputs. The empty state is never left by a frame that begins in it.
  When no frame brings more than one release, a new bow never has less than no
  ammunition, and it is in the empty state exactly when it has none.
\<close>

lemma Bow_update_ammo:
  assumes "Bow_update cfg tg inputs (b, as) = Inr (b', as')"
  shows "b_ammo b' = b_ammo b - (if b_state b = BentBowState then int (releases inputs) else 0)"
    and "length as' = length as + (if b_state b = BentBowState then releases inputs else 0)"
proof -
  have "b_ammo b' = b_ammo b - (if b_state b = BentBowState then int (releases inputs) else 0)
      \<and> length as' = length as + (if b_state b = BentBowState then releases inputs else 0)"
  proof (cases "b_state b")
    case BentBowState
    then obtain b1 where ch: "bent_charge cfg (bow_move b) = Inr b1"
      and inp: "bent_inputs cfg tg inputs (b1, as) = Inr (b', as')"
      using assms by (auto simp: Bow_update_def state_update_def BentBowState_update_def split: sum.splits)
    from bent_inputs_Inr [OF inp] bent_charge_Inr(3) [OF ch] BentBowState
    show ?thesis by auto
  next
    case NormalBowState
    then show ?thesis using assms
      by (auto simp: Bow_update_def state_update_def NormalBowState_update_keeps)
  next
    case ReloadBowState
    then show ?thesis using assms
      by (auto simp: Bow_update_reload ReloadBowState_update_fields)
  next
    case EmptyBowState
    then show ?thesis using assms
      by (auto simp: Bow_update_def state_update_def EmptyBowState_update_def)
  qed
  then show "b_ammo b' = b_ammo b - (if b_state b = BentBowState then int (releases inputs) else 0)"
    and "length as' = length as + (if b_state b = BentBowState then releases inputs else 0)"
    by simp_all
qed

lemma Bow_update_empty:
  assumes "b_state b = EmptyBowState"
  shows "Bow_update cfg tg inputs (b, as) = Inr (bow_move b, as)"
  using assms by (simp add: Bow_update_def state_update_def EmptyBowState_update_def)

lemma bow_move_stopped: "b_speed b = (0, 0) \<Longrightarrow> b_speed (bow_move b) = (0, 0)"
  by (simp add: bow_move_def Let_def)

lemma empty_state_absorbing:
  assumes "b_state b = EmptyBowState"
  shows "\<exists>b'. Bow_run cfg tg frames (b, as) = Inr (b', as) \<and> b_state b' = EmptyBowState
      \<and> b_ammo b' = b_ammo b \<and> (b_speed b = (0, 0) \<longrightarrow> b_speed b' = (0, 0))"
  using assms
proof (induction frames arbitrary: b)
  case Nil
  then show ?case by simp
next
  case (Cons f fs)
  have "b_state (bow_move b) = EmptyBowState" using Cons.prems by simp
  from Cons.IH [OF this] show ?case
    using Cons.prems by (auto simp: Bow_update_empty bow_move_stopped)
qed

lemma Bow_update_single_release:
  assumes rel: "releases inputs \<le> 1" and ok: "ammo_state_ok b"
    and upd: "Bow_update cfg tg inputs (b, as) = Inr (b', as')"
  shows "ammo_state_ok b'"
proof (cases "b_state b")
  case BentBowState
  then obtain b1 where ch: "bent_charge cfg (bow_move b) = Inr b1"
    and inp: "bent_inputs cfg tg inputs (b1, as) = Inr (b', as')"
    using upd by (auto simp: Bow_update_def state_update_def BentBowState_update_def split: sum.splits)
  have b1: "b_ammo b1 = b_ammo b" "b_state b1 = BentBowState"
    using bent_charge_Inr [OF ch] BentBowState by simp_all
  show ?thesis
  proof (cases "releases inputs = 0")
    case True
    then have "b' = b1" using bent_inputs_Inr [OF inp] by simp
    then show ?thesis using b1 ok BentBowState by (simp add: ammo_state_ok_def)
  next
    case False
    then have "releases inputs = 1" using rel by simp
    then have "b_ammo b' = b_ammo b - 1"
      "b_state b' = (if b_ammo b' \<noteq> 0 then ReloadBowState else EmptyBowState)"
      using bent_inputs_Inr [OF inp] b1 by simp_all
    then show ?thesis using ok BentBowState by (auto simp: ammo_state_ok_def)
  qed
next
  case NormalBowState
  then have "b' = NormalBowState_update inputs (bow_move b)"
    using upd by (simp add: Bow_update_def state_update_def)
  then show ?thesis
    using ok NormalBowState NormalBowState_update_state [of inputs "bow_move b"]
    by (auto simp: ammo_state_ok_def NormalBowState_update_keeps)
next
  case ReloadBowState
  then show ?thesis using upd ok
    by (auto simp: Bow_update_reload ReloadBowState_update_fields ammo_state_ok_def split: if_splits)
next
  case EmptyBowState
  then show ?thesis using upd ok by (auto simp: Bow_update_empty ammo_state_ok_def)
qed

lemma Bow_run_single_release:
  assumes "\<forall>inputs \<in> set frames. releases inputs \<le> 1" and "ammo_state_ok (fst s)"
    and "Bow_run cfg tg frames s = Inr s'"
  shows "ammo_state_ok (fst s')"
  using assms
proof (induction frames arbitrary: s)
  case Nil
  then show ?case by simp
next
  case (Cons f fs)
  then obtain s1 where s1: "Bow_update cfg tg f s = Inr s1" "Bow_run cfg tg fs s1 = Inr s'"
    by (auto split: sum.splits)
  have "ammo_state_ok (fst s1)"
    using Bow_update_single_release [of f "fst s" cfg tg "snd s" "fst s1" "snd s1"] Cons.prems s1
    by simp
  then show ?case using Cons.IH [of s1] Cons.prems(1) s1 by simp
qed

lemma new_bow_single_release:
  assumes "\<forall>inputs \<in> set frames. releases inputs \<le> 1"
    and "Bow_run cfg tg frames (Bow_init cfg c, []) = Inr (b, as)"
  shows "0 \<le> b_ammo b" and "b_ammo b = 0 \<longleftrightarrow> b_state b = EmptyBowState"
proof -
  have "ammo_state_ok (Bow_init cfg c)"
    by (simp add: ammo_state_ok_def Bow_init_inv AMMO_MAX_def)
  then have "ammo_state_ok b"
    using Bow_run_single_release [OF assms(1), of "(Bow_init cfg c, [])" cfg tg "(b, as)"] assms(2)
    by simp
  then show "0 \<le> b_ammo b" and "b_ammo b = 0 \<longleftrightarrow> b_state b = EmptyBowState"
    by (auto simp: ammo_state_ok_def split: if_splits)
qed

lemma after_shot_draws:
  "b_draws (ReloadBowState_init cfg b) = -1 # b_draws b"
  "b_draws (EmptyBowState_init b) = -1 # b_draws b"
  by (simp_all add: ReloadBowState_init_def EmptyBowState_init_def draw_def)

lemma shoot_draws: "shoot cfg tg s = Inr s1 \<Longrightarrow> b_draws (fst s1) = b_draws (fst s)"
  by (auto simp: shoot_def split: sum.splits)

lemma bent_inputs_draws:
  "bent_inputs cfg tg es s = Inr s' \<Longrightarrow>
     b_draws (fst s') = replicate (releases es) (-1) @ b_draws (fst s)"
proof (induction es arbitrary: s)
  case Nil
  then show ?case by simp
next
  case (Cons e es)
  show ?case
  proof (cases "etype e = KEYUP \<and> ekey e = K_SPACE")
    case False
    then have "bent_inputs cfg tg es s = Inr s'" using Cons.prems by auto
    from Cons.IH [OF this] False show ?thesis by auto
  next
    case True
    then obtain s1 where sh: "shoot cfg tg s = Inr s1" using Cons.prems by (auto split: sum.splits)
    define s2 where "s2 = (if b_ammo (fst s1) \<noteq> 0 then (ReloadBowState_init cfg (fst s1), snd s1)
                else (EmptyBowState_init (fst s1), snd s1))"
    have rest: "bent_inputs cfg tg es s2 = Inr s'" using Cons.prems True sh by (simp add: s2_def)
    have "b_draws (fst s2) = -1 # b_draws (fst s)"
      using shoot_draws [OF sh] by (simp add: s2_def after_shot_draws)
    then show ?thesis using Cons.IH [OF rest] True by (simp add: replicate_append_same)
  qed
qed

section \<open>The claims\<close>



text \<open>
  C9, as stated, fails. With the thresholds of the main program the charge duration is 21
  frames and there are 10 redraw steps, so charge duration divided by redraw steps is
  2.1. In the frame that takes the accumulation time from 1 to 2 the bow is redrawn
  (\<^verbatim>\<open>draw(1.0)\<close>), and 2 is not an exact multiple of 2.1.
\<close>

theorem bent_redraw_counterexample:
  "b_state bent1 = BentBowState \<and> b_bent_time bent1 = 1 \<and> b_draws bent1 = [0]
   \<and> b_bent_time (fst (projr (Bow_update sample_config None [] (bent1, [])))) = 2
   \<and> b_draws (fst (projr (Bow_update sample_config None [] (bent1, [])))) = [1, 0]
   \<and> redrawn bent1 (fst (projr (Bow_update sample_config None [] (bent1, []))))
   \<and> \<not> spec_redraw sample_config 2"
  by code_simp

text \<open>
  C9, amended. Let \<open>k\<close> be the floor division of the charge duration by the number of
  redraw steps, the charge duration being at least that number (so \<open>k\<close> is at least 1).
  In a frame that begins in the bent state the bow is drawn bent, at the step that is the
  new accumulation time divided by \<open>k\<close>, if and only if the accumulation time was below
  the charge duration when the frame began (so that the frame adds one to it) and the
  time after the increment is a multiple of \<open>k\<close>. Besides that the bow is drawn unbent,
  once for each charge-release of the frame, and in no other way. So in a frame without a
  release there is a redraw exactly under that condition.
\<close>

theorem bent_redraw_floor_steps:
  assumes "ROPE_STATES \<le> TIME_FORCE_FPS cfg" and "b_state b = BentBowState"
  shows "\<exists>b' as'. Bow_update cfg tg inputs (b, as) = Inr (b', as')
      \<and> b_draws b' =
          replicate (releases inputs) (-1)
          @ (if b_bent_time b < TIME_FORCE_FPS cfg
                \<and> (b_bent_time b + 1) mod (TIME_FORCE_FPS cfg div ROPE_STATES) = 0
             then [(b_bent_time b + 1) div (TIME_FORCE_FPS cfg div ROPE_STATES)] else [])
          @ b_draws b
      \<and> b_bent_time b' = (if b_bent_time b < TIME_FORCE_FPS cfg then b_bent_time b + 1 else b_bent_time b)
      \<and> (releases inputs = 0 \<longrightarrow>
           (redrawn b b' \<longleftrightarrow> b_bent_time b < TIME_FORCE_FPS cfg
              \<and> b_bent_time b' mod (TIME_FORCE_FPS cfg div ROPE_STATES) = 0))"
proof -
  let ?k = "TIME_FORCE_FPS cfg div ROPE_STATES"
  let ?c = "b_bent_time b < TIME_FORCE_FPS cfg \<and> (b_bent_time b + 1) mod ?k = 0"
  from bent_charge_redraw [OF assms(1), of "bow_move b"] obtain b1 where
    b1: "bent_charge cfg (bow_move b) = Inr b1"
      "redrawn (bow_move b) b1 \<longleftrightarrow> ?c"
      "redrawn (bow_move b) b1 \<longrightarrow> b_draws b1 = ((b_bent_time b + 1) div ?k) # b_draws b"
      "\<not> redrawn (bow_move b) b1 \<longrightarrow> b_draws b1 = b_draws b"
    by auto
  have d1: "b_draws b1 = (if ?c then [(b_bent_time b + 1) div ?k] else []) @ b_draws b"
    using b1(2,3,4) by auto
  have bt: "b_bent_time b1 = (if b_bent_time b < TIME_FORCE_FPS cfg then b_bent_time b + 1 else b_bent_time b)"
    using bent_charge_Inr(1) [OF b1(1)] by simp
  obtain s' where s': "bent_inputs cfg tg inputs (b1, as) = Inr s'"
    using Bow_inputs_total [OF assms(1)] by blast
  have u: "Bow_update cfg tg inputs (b, as) = Inr (fst s', snd s')"
    using s' b1(1) assms(2) by (simp add: Bow_update_def state_update_def BentBowState_update_def)
  have d: "b_draws (fst s') = replicate (releases inputs) (-1)
             @ (if ?c then [(b_bent_time b + 1) div ?k] else []) @ b_draws b"
    using bent_inputs_draws [OF s'] d1 by simp
  have t: "b_bent_time (fst s') = b_bent_time b1"
    using bent_inputs_Inr [of cfg tg inputs b1 as "fst s'" "snd s'"] s' by simp
  have r: "releases inputs = 0 \<longrightarrow>
           (redrawn b (fst s') \<longleftrightarrow> b_bent_time b < TIME_FORCE_FPS cfg
              \<and> b_bent_time (fst s') mod ?k = 0)"
    using d t bt by (auto simp: redrawn_def)
  have t': "b_bent_time (fst s') = (if b_bent_time b < TIME_FORCE_FPS cfg then b_bent_time b + 1 else b_bent_time b)"
    using t bt by simp
  show ?thesis
    apply (rule exI [of _ "fst s'"])
    apply (rule exI [of _ "snd s'"])
    apply (intro conjI)
       apply (rule u)
      apply (rule d)
     apply (rule t')
    apply (rule r)
    done
qed

theorem bent_redraw_floor_steps_witness:
  "ROPE_STATES \<le> TIME_FORCE_FPS sample_config
   \<and> b_state bent1 = BentBowState \<and> b_bent_time bent1 = 1 \<and> b_draws bent1 = [0]
   \<and> b_draws (fst (projr (Bow_update sample_config None [SPACE_DOWN] (bent1, [])))) = [1, 0]
   \<and> b_bent_time (fst (projr (Bow_update sample_config None [SPACE_DOWN] (bent1, [])))) = 2
   \<and> b_draws (fst (projr (Bow_update sample_config None [SPACE_UP] (bent1, [])))) = [-1, 1, 0]"
proof -
  have T: "ROPE_STATES \<le> TIME_FORCE_FPS sample_config" by (simp add: sample_simps ROPE_STATES_def)
  have st: "b_state bent1 = BentBowState" by code_simp
  have bt: "b_bent_time bent1 = 1" by code_simp
  have dr: "b_draws bent1 = [0]" by code_simp
  have T21: "TIME_FORCE_FPS sample_config = 21" by (simp add: sample_simps)
  from bent_redraw_floor_steps [OF T st, of None "[SPACE_DOWN]" "[]"] bt dr T21
  have "b_draws (fst (projr (Bow_update sample_config None [SPACE_DOWN] (bent1, [])))) = [1, 0]"
    "b_bent_time (fst (projr (Bow_update sample_config None [SPACE_DOWN] (bent1, [])))) = 2"
    by (auto simp: ROPE_STATES_def SPACE_DOWN_def)
  moreover from bent_redraw_floor_steps [OF T st, of None "[SPACE_UP]" "[]"] bt dr T21
  have "b_draws (fst (projr (Bow_update sample_config None [SPACE_UP] (bent1, [])))) = [-1, 1, 0]"
    by (auto simp: ROPE_STATES_def SPACE_UP_def)
  ultimately show ?thesis using T st bt dr by simp
qed





text \<open>
  C1 does not hold of the code. A new bow shoots four arrows, one press and one release
  each, and is bent again with one arrow left. The next frame brings a release, a press
  and a release. The loop of \<^verbatim>\<open>BentBowState.update\<close> shoots at both releases: the
  ammunition ends at -1 and six arrows have been shot with five in the quiver.
\<close>

theorem double_release_ammo_negative:
  "\<not> isl (Bow_run sample_config None (four_shots @ [[SPACE_DOWN]]) (Bow_init sample_config 0, []))
   \<and> b_ammo (fst (projr (Bow_run sample_config None (four_shots @ [[SPACE_DOWN]])
        (Bow_init sample_config 0, [])))) = 1
   \<and> b_state (fst (projr (Bow_run sample_config None (four_shots @ [[SPACE_DOWN]])
        (Bow_init sample_config 0, [])))) = BentBowState
   \<and> \<not> isl (Bow_run sample_config None (four_shots @ [[SPACE_DOWN], [SPACE_UP, SPACE_DOWN, SPACE_UP]])
        (Bow_init sample_config 0, []))
   \<and> b_ammo (fst (projr (Bow_run sample_config None
        (four_shots @ [[SPACE_DOWN], [SPACE_UP, SPACE_DOWN, SPACE_UP]])
        (Bow_init sample_config 0, [])))) = -1
   \<and> length (snd (projr (Bow_run sample_config None
        (four_shots @ [[SPACE_DOWN], [SPACE_UP, SPACE_DOWN, SPACE_UP]])
        (Bow_init sample_config 0, [])))) = 6"
  by code_simp

text \<open>
  C4 does not hold of the code. In the same run, a single release in the last frame
  leaves the bow empty with no ammunition. With a release, a press and a release in that
  frame the first release empties the bow, and the second one, handled by the same call,
  shoots again and puts the bow into the reload state; thirty frames later the bow is in
  the normal state and one more press and release shoot a seventh arrow. The speed of the
  bow stays (0, 0).
\<close>

theorem empty_state_left_by_second_release:
  "b_ammo (fst (projr (Bow_run sample_config None (four_shots @ [[SPACE_DOWN], [SPACE_UP]])
        (Bow_init sample_config 0, [])))) = 0
   \<and> b_state (fst (projr (Bow_run sample_config None (four_shots @ [[SPACE_DOWN], [SPACE_UP]])
        (Bow_init sample_config 0, [])))) = EmptyBowState
   \<and> b_state (fst (projr (Bow_run sample_config None
        (four_shots @ [[SPACE_DOWN], [SPACE_UP, SPACE_DOWN, SPACE_UP]])
        (Bow_init sample_config 0, [])))) = ReloadBowState
   \<and> b_speed (fst (projr (Bow_run sample_config None
        (four_shots @ [[SPACE_DOWN], [SPACE_UP, SPACE_DOWN, SPACE_UP]])
        (Bow_init sample_config 0, [])))) = (0, 0)
   \<and> b_state (fst (projr (Bow_run sample_config None
        (four_shots @ [[SPACE_DOWN], [SPACE_UP, SPACE_DOWN, SPACE_UP]] @ replicate 30 [])
        (Bow_init sample_config 0, [])))) = NormalBowState
   \<and> length (snd (projr (Bow_run sample_config None
        (four_shots @ [[SPACE_DOWN], [SPACE_UP, SPACE_DOWN, SPACE_UP]] @ replicate 30 [] @ one_shot)
        (Bow_init sample_config 0, [])))) = 7"
  by code_simp

text \<open>
  C2. Take a live arrow (its speed is not zero) whose target exists and whose context is
  a game context, and let its hitbox, after the move of this update, intersect the
  inner, the middle or the outer rectangle. Then the update adds to the score of that
  context 3 if the hitbox intersects the inner rectangle, else 2 if it intersects the
  middle one, else 1: the first matching zone in the order inner, middle, outer. Nothing
  else changes among the contexts. The arrow ends with speed zero, with the picture of a
  stopped arrow and out of the group of live arrows; a further update of it changes
  nothing, so the score is reported once.
\<close>

theorem arrow_hit_scores_first_zone:
  assumes live: "a_speed a \<noteq> (0, 0)"
    and tg: "a_target a = Some t"
    and ctx: "h (a_context a) = Some (GameContext g)"
    and hit: "colliderect (a_hitbox (arrow_move a)) (inner_hit t)
              \<or> colliderect (a_hitbox (arrow_move a)) (middle_hit t)
              \<or> colliderect (a_hitbox (arrow_move a)) (outer_hit t)"
  shows "\<exists>a' h'. Arrow_update a h = Inr (a', h')
      \<and> h' = h(a_context a \<mapsto> GameContext (g\<lparr>g_score := g_score g +
                 (if colliderect (a_hitbox (arrow_move a)) (inner_hit t) then 3
                  else if colliderect (a_hitbox (arrow_move a)) (middle_hit t) then 2 else 1)\<rparr>))
      \<and> a_speed a' = (0, 0) \<and> a_img a' = STOPPED \<and> \<not> a_alive a'
      \<and> Arrow_update a' h' = Inr (a', h')
      \<and> Arrows_update [a] h = Inr ([], h')"
proof -
  let ?a' = "(if out_of_screen (arrow_move a) then (arrow_move a)\<lparr>a_alive := False\<rparr> else arrow_move a)
            \<lparr>a_speed := (0, 0), a_img := STOPPED, a_alive := False\<rparr>"
  let ?h' = "h(a_context a \<mapsto>
              GameContext (g\<lparr>g_score := g_score g + zone_score (a_hitbox (arrow_move a)) t\<rparr>))"
  have u: "Arrow_update a h = Inr (?a', ?h')" using Arrow_update_hit [of a t h g] assms by blast
  have f: "a_speed ?a' = (0, 0)" "a_img ?a' = STOPPED" "\<not> a_alive ?a'" by simp_all
  have again: "Arrow_update ?a' ?h' = Inr (?a', ?h')" by (rule Arrow_update_stopped) simp
  have grp: "Arrows_update [a] h = Inr ([], ?h')" using u by simp
  show ?thesis using u f again grp unfolding zone_score_def by blast
qed

theorem arrow_hit_scores_first_zone_witness:
  "a_speed hit_arrow \<noteq> (0, 0)
   \<and> a_target hit_arrow = Some (Target_init sample_config)
   \<and> one_game (a_context hit_arrow) = Some (GameContext \<lparr>g_score = 0, g_drawn = True\<rparr>)
   \<and> colliderect (a_hitbox (arrow_move hit_arrow)) (inner_hit (Target_init sample_config))
   \<and> snd (projr (Arrow_update hit_arrow one_game)) 3 = Some (GameContext \<lparr>g_score = 3, g_drawn = True\<rparr>)
   \<and> a_speed (fst (projr (Arrow_update hit_arrow one_game))) = (0, 0)
   \<and> a_img (fst (projr (Arrow_update hit_arrow one_game))) = STOPPED
   \<and> a_alive (fst (projr (Arrow_update hit_arrow one_game))) = False
   \<and> fst (projr (Arrows_update [hit_arrow] one_game)) = []"
proof -
  have live: "a_speed hit_arrow \<noteq> (0, 0)" by (simp add: hit_arrow_def Arrow_init_def Let_def)
  have tg: "a_target hit_arrow = Some (Target_init sample_config)"
    by (simp add: hit_arrow_def Arrow_init_def Let_def)
  have c: "a_context hit_arrow = 3" by (simp add: hit_arrow_def Arrow_init_def Let_def)
  have ctx: "one_game (a_context hit_arrow) = Some (GameContext \<lparr>g_score = 0, g_drawn = True\<rparr>)"
    by (simp add: c one_game_def)
  have inner: "colliderect (a_hitbox (arrow_move hit_arrow)) (inner_hit (Target_init sample_config))"
    by code_simp
  from arrow_hit_scores_first_zone [of hit_arrow "Target_init sample_config" one_game
      "\<lparr>g_score = 0, g_drawn = True\<rparr>"] live tg ctx inner c
  show ?thesis by auto
qed

text \<open>
  C6. Take a live arrow whose hitbox sits at its fixed offset and whose target is the one
  the constructor builds, the picture of the target being at least 0 wide. If after the
  move of this update the arrow is beyond the right bound of the screen, or beyond the
  bottom bound with a picture of the target at least 308 high (any picture that holds its
  own zones is 399 high), the update takes the arrow out of the group of live arrows and
  changes no context: the score gets nothing.
\<close>

theorem arrow_out_of_screen_despawns:
  assumes live: "a_speed a \<noteq> (0, 0)"
    and att: "hitbox_attached a"
    and tg: "a_target a = Some (Target_init cfg)"
    and w: "0 \<le> fst (target_img_size cfg)"
    and out: "rx (a_rect (arrow_move a)) > SCREEN_WIDTH
              \<or> (ry (a_rect (arrow_move a)) > SCREEN_HEIGHT \<and> 308 \<le> snd (target_img_size cfg))"
  shows "Arrow_update a h = Inr ((arrow_move a)\<lparr>a_alive := False\<rparr>, h)
      \<and> Arrows_update [a] h = Inr ([], h)"
proof -
  let ?m = "arrow_move a"
  note f = hitbox_attached_fields [OF hitbox_attached_move [OF att]]
  have oos: "out_of_screen ?m" using out by (auto simp: out_of_screen_def)
  have miss: "\<not> colliderect (a_hitbox ?m) (inner_hit (Target_init cfg))
      \<and> \<not> colliderect (a_hitbox ?m) (middle_hit (Target_init cfg))
      \<and> \<not> colliderect (a_hitbox ?m) (outer_hit (Target_init cfg))"
  proof (cases "rx (a_rect ?m) > SCREEN_WIDTH")
    case True
    then have "1016 \<le> rx (a_hitbox ?m)" using f(1) by (simp add: SCREEN_WIDTH_def)
    then show ?thesis using target_zones_right_of [OF w f(3) f(4)] by simp
  next
    case False
    then have y: "ry (a_rect ?m) > SCREEN_HEIGHT" and h: "308 \<le> snd (target_img_size cfg)"
      using out by auto
    then have "741 \<le> ry (a_hitbox ?m)" using f(2) by (simp add: SCREEN_HEIGHT_def)
    then show ?thesis using target_zones_above [OF h f(3) f(4)] by simp
  qed
  have u: "Arrow_update a h = Inr (?m\<lparr>a_alive := False\<rparr>, h)"
    using live tg oos miss by (simp add: Arrow_update_def Let_def collidelist_hitbox)
  then show ?thesis by simp
qed

theorem arrow_out_of_screen_despawns_witness:
  "a_speed far_arrow \<noteq> (0, 0) \<and> hitbox_attached far_arrow
   \<and> a_target far_arrow = Some (Target_init sample_config)
   \<and> 0 \<le> fst (target_img_size sample_config)
   \<and> rx (a_rect (arrow_move far_arrow)) > SCREEN_WIDTH
   \<and> a_alive far_arrow
   \<and> a_alive (fst (projr (Arrow_update far_arrow one_game))) = False
   \<and> snd (projr (Arrow_update far_arrow one_game)) = one_game
   \<and> Arrows_update [far_arrow] one_game = Inr ([], one_game)"
proof -
  have live: "a_speed far_arrow \<noteq> (0, 0)" by (simp add: far_arrow_def Arrow_init_def Let_def)
  have att: "hitbox_attached far_arrow" by (simp add: far_arrow_def hitbox_attached_init)
  have tg: "a_target far_arrow = Some (Target_init sample_config)"
    by (simp add: far_arrow_def Arrow_init_def Let_def)
  have w: "0 \<le> fst (target_img_size sample_config)" by (simp add: sample_simps)
  have out: "rx (a_rect (arrow_move far_arrow)) > SCREEN_WIDTH" by code_simp
  have al: "a_alive far_arrow" by (simp add: far_arrow_def Arrow_init_def Let_def)
  from arrow_out_of_screen_despawns [OF live att tg w, of one_game] out
  show ?thesis using live att tg w al by simp
qed

text \<open>
  C5, as stated, fails: the inner rectangle is not contained in the middle one. Its left
  edge is 9 pixels to the left of the left edge of the middle rectangle (799 against 808
  for a picture of the target 130 wide).
\<close>

theorem target_rects_nested_counterexample:
  "\<not> rect_inside (inner_hit (Target_init sample_config)) (middle_hit (Target_init sample_config))
   \<and> rx (inner_hit (Target_init sample_config)) = 799
   \<and> rx (middle_hit (Target_init sample_config)) = 808"
  by code_simp


text \<open>
  C5, amended. Wherever the target is placed, the middle rectangle is contained in the
  outer one; the inner rectangle is not contained in the middle one: it starts 9 pixels
  to the left of it, while its right edge and its vertical extent lie within the middle
  rectangle. The rectangles are not changed after the target is built: an update of the
  game context leaves \<^verbatim>\<open>Target.INSTANCE\<close> as it is, an update of an arrow leaves the
  target of the arrow as it is, and after a turn of the main loop \<^verbatim>\<open>Target.INSTANCE\<close>
  holds the rectangles the constructor computes, if it held them before.
\<close>

theorem target_rects_layout_fixed:
  "rect_inside (middle_hit (Target_init cfg)) (outer_hit (Target_init cfg))
   \<and> \<not> rect_inside (inner_hit (Target_init cfg)) (middle_hit (Target_init cfg))
   \<and> rx (inner_hit (Target_init cfg)) + 9 = rx (middle_hit (Target_init cfg))
   \<and> rx (inner_hit (Target_init cfg)) + rw (inner_hit (Target_init cfg))
        \<le> rx (middle_hit (Target_init cfg)) + rw (middle_hit (Target_init cfg))
   \<and> ry (middle_hit (Target_init cfg)) \<le> ry (inner_hit (Target_init cfg))
   \<and> ry (inner_hit (Target_init cfg)) + rh (inner_hit (Target_init cfg))
        \<le> ry (middle_hit (Target_init cfg)) + rh (middle_hit (Target_init cfg))
   \<and> (\<forall>c inputs w r. GameContext_update cfg c inputs w = Inr r \<longrightarrow>
          Target_INSTANCE (snd r) = Target_INSTANCE w)
   \<and> (\<forall>a h r. Arrow_update a h = Inr r \<longrightarrow> a_target (fst r) = a_target a)
   \<and> (\<forall>inputs p p'. main_step cfg inputs p = Inr p'
          \<and> Target_INSTANCE (shared p) = Some (Target_init cfg) \<longrightarrow>
          Target_INSTANCE (shared p') = Some (Target_init cfg))"
  using Target_init_layout [of cfg] GameContext_update_target [of cfg] Arrow_update_target
    main_step_target [of cfg]
  by blast

theorem target_rects_layout_fixed_witness:
  "\<not> isl (GameContext_update sample_config 3 [SPACE_DOWN] (shared first_game))
   \<and> Target_INSTANCE (shared first_game) = Some (Target_init sample_config)
   \<and> Target_INSTANCE (snd (projr (GameContext_update sample_config 3 [SPACE_DOWN] (shared first_game))))
       = Some (Target_init sample_config)
   \<and> rect_inside (middle_hit (Target_init sample_config)) (outer_hit (Target_init sample_config))"
proof -
  let ?r = "GameContext_update sample_config 3 [SPACE_DOWN] (shared first_game)"
  have ok: "\<not> isl ?r" by code_simp
  then have r: "?r = Inr (projr ?r)" by simp
  have t: "Target_INSTANCE (shared first_game) = Some (Target_init sample_config)" by code_simp
  note th0 = target_rects_layout_fixed [of sample_config]
  from th0 have "\<forall>c inputs w r. GameContext_update sample_config c inputs w = Inr r \<longrightarrow>
          Target_INSTANCE (snd r) = Target_INSTANCE w"
    by blast
  with r have "Target_INSTANCE (snd (projr ?r)) = Target_INSTANCE (shared first_game)" by blast
  moreover from th0 have "rect_inside (middle_hit (Target_init sample_config)) (outer_hit (Target_init sample_config))"
    by blast
  ultimately show ?thesis using ok t by simp
qed

text \<open>
  C7 does not hold of the code. In the session \<open>play_pause_play\<close> the instruction
  \<^verbatim>\<open>Game New\<close> creates a game context at a new address (4), with score 0, and caches
  it; the arrow shot in the first game (context 3) is still in \<^verbatim>\<open>Arrow.INSTANCES\<close>
  and alive. The new game goes on updating it: sixty frames later it has hit the outer
  zone, the score of the old context is 1 and the score of the new one is 0.
\<close>

theorem new_game_keeps_old_arrows:
  "\<not> isl (main_loop sample_config (play_pause_play @ replicate 60 []) program_init)
   \<and> active_context second_game = Some 4
   \<and> map_option cached (context_dict second_game ''Game'') = Some (Some 4)
   \<and> objs (shared second_game) 4 = Some (GameContext \<lparr>g_score = 0, g_drawn = False\<rparr>)
   \<and> map a_context (Arrow_INSTANCES (shared second_game)) = [3]
   \<and> map a_alive (Arrow_INSTANCES (shared second_game)) = [True]
   \<and> active_context second_game_later = Some 4
   \<and> Arrow_INSTANCES (shared second_game_later) = []
   \<and> objs (shared second_game_later) 4 = Some (GameContext \<lparr>g_score = 0, g_drawn = True\<rparr>)
   \<and> objs (shared second_game_later) 3 = Some (GameContext \<lparr>g_score = 1, g_drawn = False\<rparr>)"
  by code_simp

end
